theory Spec2Isabelle
  imports Main "HOL-Library.Monad_Syntax"
begin

section \<open>Characters and strings\<close>

text \<open>
  The monitor of \<^verbatim>\<open>skill/scripts/log_monitor.py\<close> works on Python \<^verbatim>\<open>str\<close> values.
  A string is modelled as a \<^typ>\<open>char list\<close> whose characters are the code points
  0..255. On these code points the regular-expression class \<^verbatim>\<open>\d\<close> is the ten ASCII
  digits, and both \<^verbatim>\<open>\s\<close> and \<^verbatim>\<open>str.strip()\<close> use the white space of
  \<^verbatim>\<open>str.isspace\<close>: TAB, LF, VT, FF, CR, FS, GS, RS, US, SPACE, NEL and NBSP.
\<close>

definition is_digit :: "char \<Rightarrow> bool" where
  "is_digit c = (c \<in> set ''0123456789'')"

definition is_space :: "char \<Rightarrow> bool" where
  "is_space c = (c \<in> set [CHR 0x09, CHR 0x0A, CHR 0x0B, CHR 0x0C, CHR 0x0D,
                           CHR 0x1C, CHR 0x1D, CHR 0x1E, CHR 0x1F, CHR 0x20,
                           CHR 0x85, CHR 0xA0])"

text \<open>\<^verbatim>\<open>s.strip()\<close>: white space removed at both ends.\<close>

definition strip :: "string \<Rightarrow> string" where
  "strip s = rev (dropWhile is_space (rev (dropWhile is_space s)))"

text \<open>
  \<^verbatim>\<open>re.sub(r"C+", repl, s)\<close> for a character class \<open>C\<close>: scanning from the left, every
  maximal run of characters of the class is replaced by \<open>repl\<close>.
\<close>

function re_sub_runs :: "(char \<Rightarrow> bool) \<Rightarrow> string \<Rightarrow> string \<Rightarrow> string" where
  "re_sub_runs C repl [] = []"
| "re_sub_runs C repl (c # cs) =
     (if C c then repl @ re_sub_runs C repl (dropWhile C cs)
      else c # re_sub_runs C repl cs)"
  by pat_completeness auto
termination
  by (relation "measure (\<lambda>(C, repl, s). length s)")
     (auto simp: le_imp_less_Suc length_dropWhile_le)

section \<open>The monitor's state\<close>

text \<open>
  The fields of \<^verbatim>\<open>LogMonitor\<close> that the line processing reads and writes. The process
  handle and the interrupt flag belong to the streaming loop and are not part of the
  aggregation state.
\<close>

record monitor =
  app_package :: "string option"
  device_serial :: "string option"
  severity_filter :: "string list"
  log_lines :: "string list"
  errors :: "string list"
  warnings :: "string list"
  info_messages :: "string list"
  error_count :: int
  warning_count :: int
  info_count :: int
  debug_count :: int
  verbose_count :: int
  total_lines :: int
  seen_messages :: "string set"

text \<open>
  \<^verbatim>\<open>__init__\<close>: \<^verbatim>\<open>severity_filter or ["error", "warning", "info", "debug"]\<close> takes the
  default for \<^verbatim>\<open>None\<close> and for the empty list.
\<close>

definition init :: "string option \<Rightarrow> string option \<Rightarrow> string list option \<Rightarrow> monitor" where
  "init app serial sev_filter =
     \<lparr> app_package = app,
       device_serial = serial,
       severity_filter =
         (case sev_filter of
            None \<Rightarrow> [''error'', ''warning'', ''info'', ''debug'']
          | Some f \<Rightarrow> if f = [] then [''error'', ''warning'', ''info'', ''debug''] else f),
       log_lines = [],
       errors = [],
       warnings = [],
       info_messages = [],
       error_count = 0,
       warning_count = 0,
       info_count = 0,
       debug_count = 0,
       verbose_count = 0,
       total_lines = 0,
       seen_messages = {} \<rparr>"

section \<open>Deduplication\<close>

text \<open>
  The signature of \<^verbatim>\<open>deduplicate_message\<close>: \<^verbatim>\<open>f"{tag}:{message}"\<close>, then every digit
  run deleted, then every white-space run replaced by one space, then stripped.
\<close>

definition signature :: "string \<Rightarrow> string \<Rightarrow> string" where
  "signature message tag =
     strip (re_sub_runs is_space '' '' (re_sub_runs is_digit [] (tag @ '':'' @ message)))"

text \<open>
  \<^verbatim>\<open>deduplicate_message(message, tag)\<close> returns \<open>False\<close> for a signature that is in
  \<^verbatim>\<open>seen_messages\<close>; otherwise it adds the signature and returns \<open>True\<close>.
\<close>

definition deduplicate_message :: "string \<Rightarrow> string \<Rightarrow> monitor \<Rightarrow> bool \<times> monitor" where
  "deduplicate_message message tag st =
     (let sig = signature message tag in
      if sig \<in> seen_messages st then (False, st)
      else (True, st\<lparr>seen_messages := insert sig (seen_messages st)\<rparr>))"

text \<open>The same pair submitted \<open>n\<close> times in a row: the outcomes in order, and the state.\<close>

fun submit_n :: "nat \<Rightarrow> string \<Rightarrow> string \<Rightarrow> monitor \<Rightarrow> bool list \<times> monitor" where
  "submit_n 0 message tag st = ([], st)"
| "submit_n (Suc n) message tag st =
     (let (b, st') = deduplicate_message message tag st;
          (bs, st'') = submit_n n message tag st'
      in (b # bs, st''))"

text \<open>Two strings differ only in their digits: they are equal once the digits are deleted.\<close>

definition differ_only_in_digits :: "string \<Rightarrow> string \<Rightarrow> bool" where
  "differ_only_in_digits a b =
     (filter (\<lambda>c. \<not> is_digit c) a = filter (\<lambda>c. \<not> is_digit c) b)"

section \<open>The line parser\<close>

text \<open>
  The dictionary that \<^verbatim>\<open>parse_logcat_line\<close> returns, one field for each key.
\<close>

record parsed_line =
  timestamp :: string
  pid :: string
  tid :: string
  priority :: string
  severity :: string
  tag :: string
  message :: string
  raw :: string

definition PRIORITY_MAP :: "string \<rightharpoonup> string" where
  "PRIORITY_MAP =
     map_of [(''V'', ''verbose''), (''D'', ''debug''), (''I'', ''info''),
             (''W'', ''warning''), (''E'', ''error''), (''F'', ''fatal'')]"

text \<open>
  The pattern of \<^verbatim>\<open>parse_logcat_line\<close> is
  \<^verbatim>\<open>(\d{2}-\d{2}\s+\d{2}:\d{2}:\d{2}\.\d{3})\s+(\d+)\s+(\d+)\s+([VDIWEF])\s+([^:]+):\s*(.*)\<close>,
  matched by \<^verbatim>\<open>re.match\<close>: anchored at the start of the line, not at its end. Each
  piece below consumes a prefix of its input and returns what is left, or \<open>None\<close>
  when the piece cannot match.

  \<^verbatim>\<open>\d{n}\<close>: exactly \<open>n\<close> digits.
\<close>

definition match_digits_n :: "nat \<Rightarrow> string \<Rightarrow> string option" where
  "match_digits_n n s =
     (if n \<le> length s \<and> list_all is_digit (take n s) then Some (drop n s) else None)"

text \<open>A literal character.\<close>

definition match_lit :: "char \<Rightarrow> string \<Rightarrow> string option" where
  "match_lit c s = (case s of [] \<Rightarrow> None | x # xs \<Rightarrow> if x = c then Some xs else None)"

text \<open>
  \<^verbatim>\<open>\s+\<close> in front of a piece that starts with a digit or a priority letter: the greedy
  match takes the whole white-space run, and giving a character back leaves white space
  where the next piece cannot start, so the longest match is the only one.
\<close>

definition match_spaces1 :: "string \<Rightarrow> string option" where
  "match_spaces1 s =
     (if takeWhile is_space s = [] then None else Some (dropWhile is_space s))"

text \<open>
  \<^verbatim>\<open>(\d+)\<close> in front of \<^verbatim>\<open>\s+\<close> or of a unit letter: the whole digit run, for the same
  reason. The group and the rest are returned.
\<close>

definition match_digits1 :: "string \<Rightarrow> (string \<times> string) option" where
  "match_digits1 s =
     (if takeWhile is_digit s = [] then None
      else Some (takeWhile is_digit s, dropWhile is_digit s))"

text \<open>
  Group 1, \<^verbatim>\<open>(\d{2}-\d{2}\s+\d{2}:\d{2}:\d{2}\.\d{3})\<close>: the group is the prefix consumed.
\<close>

definition match_timestamp :: "string \<Rightarrow> (string \<times> string) option" where
  "match_timestamp s =
     (case match_digits_n 2 s \<bind> match_lit CHR ''-'' \<bind> match_digits_n 2 \<bind>
           match_spaces1 \<bind>
           match_digits_n 2 \<bind> match_lit CHR '':'' \<bind>
           match_digits_n 2 \<bind> match_lit CHR '':'' \<bind>
           match_digits_n 2 \<bind> match_lit CHR ''.'' \<bind> match_digits_n 3 of
        None \<Rightarrow> None
      | Some rest \<Rightarrow> Some (take (length s - length rest) s, rest))"

text \<open>\<^verbatim>\<open>([VDIWEF])\<close>: one priority letter.\<close>

definition match_priority :: "string \<Rightarrow> (string \<times> string) option" where
  "match_priority s =
     (case s of
        [] \<Rightarrow> None
      | c # cs \<Rightarrow> if c \<in> set ''VDIWEF'' then Some ([c], cs) else None)"

text \<open>
  \<^verbatim>\<open>\s+([^:]+):\<close>. White space is also matched by \<^verbatim>\<open>[^:]\<close>, so here the backtracking
  shows. \<^verbatim>\<open>[^:]+\<close> always runs to the first colon, which must exist. \<^verbatim>\<open>\s+\<close> first
  takes all the leading white space; when anything is left before the colon, that is
  the tag. When the text before the colon is white space only, \<^verbatim>\<open>\s+\<close> gives its last
  character back to \<^verbatim>\<open>[^:]+\<close>, which needs two characters of white space; with one
  there is no match. The group and the text after the colon are returned.
\<close>

definition match_tag :: "string \<Rightarrow> (string \<times> string) option" where
  "match_tag s =
     (let run = takeWhile (\<lambda>c. c \<noteq> CHR '':'') s;
          rest = dropWhile (\<lambda>c. c \<noteq> CHR '':'') s;
          ws = takeWhile is_space run
      in if rest = [] then None
         else if ws = [] then None
         else if ws \<noteq> run then Some (dropWhile is_space run, tl rest)
         else if 2 \<le> length run then Some ([last run], tl rest)
         else None)"

text \<open>
  \<^verbatim>\<open>\s*(.*)\<close> after the colon: all the white space, then everything up to a line feed
  (\<^verbatim>\<open>.\<close> matches every character but LF). Both pieces match the empty string, so this
  never fails. The group is returned.
\<close>

definition match_message :: "string \<Rightarrow> string" where
  "match_message s = takeWhile (\<lambda>c. c \<noteq> CHR 0x0A) (dropWhile is_space s)"

definition parse_logcat_line :: "string \<Rightarrow> parsed_line option" where
  "parse_logcat_line line =
     do {
       (ts, r1) \<leftarrow> match_timestamp line;
       r2 \<leftarrow> match_spaces1 r1;
       (p, r3) \<leftarrow> match_digits1 r2;
       r4 \<leftarrow> match_spaces1 r3;
       (t, r5) \<leftarrow> match_digits1 r4;
       r6 \<leftarrow> match_spaces1 r5;
       (prio, r7) \<leftarrow> match_priority r6;
       (tg, r8) \<leftarrow> match_tag r7;
       Some \<lparr> timestamp = ts,
              pid = p,
              tid = t,
              priority = prio,
              severity = (case PRIORITY_MAP prio of None \<Rightarrow> ''unknown'' | Some v \<Rightarrow> v),
              tag = strip tg,
              message = strip (match_message r8),
              raw = line \<rparr>
     }"

section \<open>Classification and aggregation\<close>

text \<open>
  \<^verbatim>\<open>classify_log_line\<close>: the \<^verbatim>\<open>if\<close>/\<^verbatim>\<open>elif\<close> chain on the priority, with
  \<^verbatim>\<open>verbose\<close> as the last branch. The record always has the key, so the default of
  \<^verbatim>\<open>parsed.get("priority", "I")\<close> is never taken.
\<close>

definition classify_log_line :: "parsed_line \<Rightarrow> string" where
  "classify_log_line parsed =
     (let p = priority parsed in
      if p \<in> set [''E'', ''F''] then ''error''
      else if p = ''W'' then ''warning''
      else if p = ''I'' then ''info''
      else if p = ''D'' then ''debug''
      else ''verbose'')"

text \<open>The entry \<^verbatim>\<open>f"[{parsed['tag']}] {parsed['message']}"\<close> of the issue lists.\<close>

definition entry :: "parsed_line \<Rightarrow> string" where
  "entry parsed = ''['' @ tag parsed @ ''] '' @ message parsed"

text \<open>
  \<^verbatim>\<open>process_log_line\<close>. A line that is empty after \<^verbatim>\<open>strip()\<close> returns at once. An
  unparsed line is stored and counted in \<^verbatim>\<open>total_lines\<close>. A parsed line is stored and
  counted, then classified; it stops at a severity outside the filter, and, for an
  error or a warning, at a signature seen before; only then is the severity's counter
  incremented and the entry stored.
\<close>

definition process_log_line :: "string \<Rightarrow> monitor \<Rightarrow> monitor" where
  "process_log_line line st =
     (if strip line = [] then st
      else case parse_logcat_line line of
        None \<Rightarrow>
          st\<lparr>log_lines := log_lines st @ [line], total_lines := total_lines st + 1\<rparr>
      | Some parsed \<Rightarrow>
          (let st1 = st\<lparr>total_lines := total_lines st + 1,
                        log_lines := log_lines st @ [raw parsed]\<rparr>;
               sev = classify_log_line parsed
           in if sev \<notin> set (severity_filter st1) then st1
              else
                (let (novel, st2) =
                       (if sev \<in> set [''error'', ''warning'']
                        then deduplicate_message (message parsed) (tag parsed) st1
                        else (True, st1))
                 in if \<not> novel then st2
                    else if sev = ''error'' then
                      st2\<lparr>error_count := error_count st2 + 1,
                          errors := errors st2 @ [entry parsed]\<rparr>
                    else if sev = ''warning'' then
                      st2\<lparr>warning_count := warning_count st2 + 1,
                          warnings := warnings st2 @ [entry parsed]\<rparr>
                    else if sev = ''info'' then
                      (let st3 = st2\<lparr>info_count := info_count st2 + 1\<rparr>
                       in if length (info_messages st3) < 20
                          then st3\<lparr>info_messages := info_messages st3 @ [entry parsed]\<rparr>
                          else st3)
                    else if sev = ''debug'' then st2\<lparr>debug_count := debug_count st2 + 1\<rparr>
                    else st2\<lparr>verbose_count := verbose_count st2 + 1\<rparr>)))"

text \<open>The lines of a stream processed in the order they arrive.\<close>

definition process_lines :: "string list \<Rightarrow> monitor \<Rightarrow> monitor" where
  "process_lines ls st = fold process_log_line ls st"

section \<open>Reports and persisted logs\<close>

text \<open>
  The dictionary of \<^verbatim>\<open>get_json_output\<close>. \<^verbatim>\<open>xs[:20]\<close> is \<open>take 20 xs\<close>, and
  \<^verbatim>\<open>xs[-50:]\<close> is the last 50 elements, or all of \<open>xs\<close> when it has fewer.
\<close>

record json_output =
  json_app_package :: "string option"
  json_device_serial :: "string option"
  stat_total_lines :: int
  stat_errors :: int
  stat_warnings :: int
  stat_info :: int
  stat_debug :: int
  stat_verbose :: int
  json_errors :: "string list"
  json_warnings :: "string list"
  sample_logs :: "string list"

definition get_json_output :: "monitor \<Rightarrow> json_output" where
  "get_json_output st =
     \<lparr> json_app_package = app_package st,
       json_device_serial = device_serial st,
       stat_total_lines = total_lines st,
       stat_errors = error_count st,
       stat_warnings = warning_count st,
       stat_info = info_count st,
       stat_debug = debug_count st,
       stat_verbose = verbose_count st,
       json_errors = take 20 (errors st),
       json_warnings = take 20 (warnings st),
       sample_logs = drop (length (log_lines st) - 50) (log_lines st) \<rparr>"

text \<open>\<^verbatim>\<open>"\n".join(xs)\<close>.\<close>

fun join_lines :: "string list \<Rightarrow> string" where
  "join_lines [] = []"
| "join_lines [x] = x"
| "join_lines (x # y # ys) = x @ [CHR 0x0A] @ join_lines (y # ys)"

text \<open>
  \<^verbatim>\<open>save_logs\<close> writes two files: the log file, \<^verbatim>\<open>"\n".join(self.log_lines)\<close>, and the
  summary, \<^verbatim>\<open>get_json_output()\<close>. The model returns what is written to each; the file
  names (application name and time stamp) are left out.
\<close>

definition save_logs :: "monitor \<Rightarrow> string \<times> json_output" where
  "save_logs st = (join_lines (log_lines st), get_json_output st)"

section \<open>Durations\<close>

datatype error = ValueError string

text \<open>
  \<^verbatim>\<open>str.lower()\<close> on the code points 0..255: the ASCII capitals and the capitals
  \<open>0xC0\<close>..\<open>0xDE\<close> without the multiplication sign \<open>0xD7\<close> move to the letter 32
  code points higher; every other character stays.
\<close>

definition upper_chars :: string where
  "upper_chars = ''ABCDEFGHIJKLMNOPQRSTUVWXYZ'' @
     [CHR 0xC0, CHR 0xC1, CHR 0xC2, CHR 0xC3, CHR 0xC4, CHR 0xC5, CHR 0xC6, CHR 0xC7,
      CHR 0xC8, CHR 0xC9, CHR 0xCA, CHR 0xCB, CHR 0xCC, CHR 0xCD, CHR 0xCE, CHR 0xCF,
      CHR 0xD0, CHR 0xD1, CHR 0xD2, CHR 0xD3, CHR 0xD4, CHR 0xD5, CHR 0xD6,
      CHR 0xD8, CHR 0xD9, CHR 0xDA, CHR 0xDB, CHR 0xDC, CHR 0xDD, CHR 0xDE]"

definition lower_chars :: string where
  "lower_chars = ''abcdefghijklmnopqrstuvwxyz'' @
     [CHR 0xE0, CHR 0xE1, CHR 0xE2, CHR 0xE3, CHR 0xE4, CHR 0xE5, CHR 0xE6, CHR 0xE7,
      CHR 0xE8, CHR 0xE9, CHR 0xEA, CHR 0xEB, CHR 0xEC, CHR 0xED, CHR 0xEE, CHR 0xEF,
      CHR 0xF0, CHR 0xF1, CHR 0xF2, CHR 0xF3, CHR 0xF4, CHR 0xF5, CHR 0xF6,
      CHR 0xF8, CHR 0xF9, CHR 0xFA, CHR 0xFB, CHR 0xFC, CHR 0xFD, CHR 0xFE]"

definition lower_char :: "char \<Rightarrow> char" where
  "lower_char c = (case map_of (zip upper_chars lower_chars) c of None \<Rightarrow> c | Some l \<Rightarrow> l)"

definition lower :: "string \<Rightarrow> string" where
  "lower s = map lower_char s"

text \<open>\<^verbatim>\<open>int(value)\<close> for a string of decimal digits.\<close>

definition digit_value :: "char \<Rightarrow> int" where
  "digit_value c = int (length (takeWhile (\<lambda>d. d \<noteq> c) ''0123456789''))"

definition int_of_digits :: "string \<Rightarrow> int" where
  "int_of_digits ds = foldl (\<lambda>n c. 10 * n + digit_value c) 0 ds"

text \<open>
  \<^verbatim>\<open>re.match(r"(\d+)([smh])", s)\<close>: the digit run, then one unit letter; anchored at the
  start only. The two groups are returned.
\<close>

definition match_duration :: "string \<Rightarrow> (string \<times> string) option" where
  "match_duration s =
     do {
       (ds, r) \<leftarrow> match_digits1 s;
       (case r of
          [] \<Rightarrow> None
        | u # _ \<Rightarrow> if u \<in> set ''smh'' then Some (ds, [u]) else None)
     }"

definition usage_hint :: string where
  "usage_hint = ''. Use format like '' @ [CHR 0x27] @ ''30s'' @ [CHR 0x27] @ '', '' @
     [CHR 0x27] @ ''5m'' @ [CHR 0x27] @ '', '' @ [CHR 0x27] @ ''1h'' @ [CHR 0x27]"

text \<open>
  \<^verbatim>\<open>parse_time_duration\<close>: the pattern is matched against the lower-cased string; the
  error message carries the string as given. The last branch is the \<^verbatim>\<open>return 0\<close> that
  follows the three unit tests.
\<close>

definition parse_time_duration :: "string \<Rightarrow> error + int" where
  "parse_time_duration duration_str =
     (case match_duration (lower duration_str) of
        None \<Rightarrow> Inl (ValueError (''Invalid duration format: '' @ duration_str @ usage_hint))
      | Some (v, unit) \<Rightarrow>
          (let val = int_of_digits v in
           if unit = ''s'' then Inr val
           else if unit = ''m'' then Inr (val * 60)
           else if unit = ''h'' then Inr (val * 3600)
           else Inr 0))"

section \<open>The priority threshold of the log source\<close>

text \<open>
  The part of \<^verbatim>\<open>stream_logs\<close> that builds the priority filter of the \<^verbatim>\<open>logcat\<close>
  command. Each severity of the filter contributes its letters, in the order of the
  filter; a string that is no severity contributes nothing.
\<close>

definition letters_of :: "string \<Rightarrow> string list" where
  "letters_of sev =
     (if sev = ''error'' then [''E'', ''F'']
      else if sev = ''warning'' then [''W'']
      else if sev = ''info'' then [''I'']
      else if sev = ''debug'' then [''D'']
      else if sev = ''verbose'' then [''V'']
      else [])"

definition priority_letters :: "string list \<Rightarrow> string list" where
  "priority_letters sevs = concat (map letters_of sevs)"

definition priority_order :: "string list" where
  "priority_order = [''V'', ''D'', ''I'', ''W'', ''E'', ''F'']"

text \<open>\<^verbatim>\<open>xs.index(x)\<close>: the first position of \<open>x\<close>; \<open>None\<close> stands for the ValueError.\<close>

fun list_index :: "'a list \<Rightarrow> 'a \<Rightarrow> nat option" where
  "list_index [] x = None"
| "list_index (y # ys) x =
     (if y = x then Some 0 else map_option Suc (list_index ys x))"

text \<open>\<^verbatim>\<open>min\<close> of a sequence; the caller has checked that it is not empty.\<close>

definition min_list_nat :: "nat list \<Rightarrow> nat" where
  "min_list_nat xs = fold min (tl xs) (hd xs)"

text \<open>
  The result is \<open>Inr None\<close> when no filter argument is added to the command, and
  \<open>Inr (Some p)\<close> when \<^verbatim>\<open>"*:p"\<close> is added.
\<close>

definition min_priority :: "string list \<Rightarrow> error + string option" where
  "min_priority sevs =
     (if sevs = [] then Inr None
      else
        (let letters = priority_letters sevs in
         if letters = [] then Inr None
         else
           (case those (map (list_index priority_order) letters) of
              None \<Rightarrow> Inl (ValueError ''is not in list'')
            | Some idxs \<Rightarrow> Inr (Some (priority_order ! min_list_nat idxs)))))"

definition filter_args :: "monitor \<Rightarrow> error + string list" where
  "filter_args st =
     (case min_priority (severity_filter st) of
        Inl e \<Rightarrow> Inl e
      | Inr None \<Rightarrow> Inr []
      | Inr (Some p) \<Rightarrow> Inr [''*:'' @ p])"

text \<open>
  The order \<open>V < D < I < W < E < F\<close> of the priority letters, as the specification
  gives it, and the letters that a requested list of severities contributes: \<open>E\<close> and
  \<open>F\<close> for \<open>error\<close>, \<open>W\<close> for \<open>warning\<close>, \<open>I\<close> for \<open>info\<close>, \<open>D\<close> for \<open>debug\<close>,
  \<open>V\<close> for \<open>verbose\<close>.
\<close>

definition priority_rank :: "string \<Rightarrow> nat" where
  "priority_rank p =
     (if p = ''V'' then 0 else if p = ''D'' then 1 else if p = ''I'' then 2
      else if p = ''W'' then 3 else if p = ''E'' then 4 else 5)"

definition contributed :: "string list \<Rightarrow> string set" where
  "contributed sevs =
     (if ''error'' \<in> set sevs then {''E'', ''F''} else {}) \<union>
     (if ''warning'' \<in> set sevs then {''W''} else {}) \<union>
     (if ''info'' \<in> set sevs then {''I''} else {}) \<union>
     (if ''debug'' \<in> set sevs then {''D''} else {}) \<union>
     (if ''verbose'' \<in> set sevs then {''V''} else {})"

text \<open>The vocabulary of the severity filter.\<close>

definition severities :: "string list" where
  "severities = [''error'', ''warning'', ''info'', ''debug'', ''verbose'']"

section \<open>The duration grammar of the specification\<close>

text \<open>
  The grammar \<open><integer><unit>\<close> with the unit one of \<open>s\<close>, \<open>m\<close>, \<open>h\<close>, as the
  specification words it: the whole string is a non-empty run of digits followed by one
  unit letter. This definition follows the specification, not the code.
\<close>

definition duration_grammar :: "string \<Rightarrow> bool" where
  "duration_grammar s =
     (s \<noteq> [] \<and> butlast s \<noteq> [] \<and> list_all is_digit (butlast s) \<and> last s \<in> set ''smh'')"

text \<open>Some prefix of the string is in the grammar.\<close>

definition has_grammar_prefix :: "string \<Rightarrow> bool" where
  "has_grammar_prefix s = list_ex (\<lambda>n. duration_grammar (take n s)) [0..<Suc (length s)]"

section \<open>Properties of the deduplicator\<close>

lemma filter_not_dropWhile: "filter (\<lambda>c. \<not> C c) (dropWhile C cs) = filter (\<lambda>c. \<not> C c) cs"
  by (induction cs) auto

lemma re_sub_runs_delete: "re_sub_runs C [] s = filter (\<lambda>c. \<not> C c) s"
  by (induction C "[] :: string" s rule: re_sub_runs.induct)
     (auto simp: filter_not_dropWhile)

lemma colon_not_digit: "\<not> is_digit CHR '':''"
  by (simp add: is_digit_def)

lemma signature_digits:
  "signature m t =
     strip (re_sub_runs is_space '' ''
       (filter (\<lambda>c. \<not> is_digit c) t @ '':'' @ filter (\<lambda>c. \<not> is_digit c) m))"
  by (simp add: signature_def re_sub_runs_delete colon_not_digit)

lemma dedup_second:
  assumes "signature m2 t2 = signature m1 t1"
  shows "fst (deduplicate_message m2 t2 (snd (deduplicate_message m1 t1 st))) = False"
  using assms by (simp add: deduplicate_message_def Let_def)

lemma dedup_seen: "signature m t \<in> seen_messages (snd (deduplicate_message m t st))"
  by (simp add: deduplicate_message_def Let_def)

lemma submit_n_seen:
  "signature m t \<in> seen_messages st \<Longrightarrow> fst (submit_n n m t st) = replicate n False"
  by (induction n arbitrary: st)
     (simp_all add: deduplicate_message_def Let_def case_prod_beta)

lemma submit_n_fresh:
  "signature m t \<notin> seen_messages st \<Longrightarrow>
   fst (submit_n (Suc n) m t st) = True # replicate n False"
  using submit_n_seen [of m t "snd (deduplicate_message m t st)" n] dedup_seen [of m t st]
  by (simp add: case_prod_beta) (simp add: deduplicate_message_def Let_def)

text \<open>
  Claim C6. The signature does not depend on the digits of the message: for every tag
  and every two messages that differ only in their digits the signatures are equal, and
  the second of the two submissions is reported as a duplicate, whatever the state of the
  session. In particular this holds for the tag \<open>Tag\<close> with the messages
  \<open>Failed at 12\<close> and \<open>Failed at 99\<close>.
\<close>

theorem signature_numeral_invariant:
  "(differ_only_in_digits m1 m2 \<longrightarrow>
      signature m1 t = signature m2 t \<and>
      fst (deduplicate_message m2 t (snd (deduplicate_message m1 t st))) = False) \<and>
   signature ''Failed at 12'' ''Tag'' = signature ''Failed at 99'' ''Tag'' \<and>
   fst (deduplicate_message ''Failed at 99'' ''Tag''
         (snd (deduplicate_message ''Failed at 12'' ''Tag'' st))) = False"
proof -
  have gen: "signature a t' = signature b t'" if "differ_only_in_digits a b" for a b t'
    using that by (simp add: signature_digits differ_only_in_digits_def)
  have conc: "differ_only_in_digits ''Failed at 12'' ''Failed at 99''"
    by (simp add: differ_only_in_digits_def is_digit_def)
  show ?thesis
    using gen [of m1 m2 t] gen [OF conc, of "''Tag''"]
      dedup_second [of m2 t m1 t st]
      dedup_second [of "''Failed at 99''" "''Tag''" "''Failed at 12''" "''Tag''" st]
    by auto
qed

theorem signature_numeral_invariant_witness:
  "differ_only_in_digits ''retry 3 of 10'' ''retry 4 of 10'' \<and>
   signature ''retry 3 of 10'' ''Net'' = signature ''retry 4 of 10'' ''Net'' \<and>
   fst (deduplicate_message ''retry 4 of 10'' ''Net''
         (snd (deduplicate_message ''retry 3 of 10'' ''Net'' (init None None None)))) = False"
proof -
  have h: "differ_only_in_digits ''retry 3 of 10'' ''retry 4 of 10''"
    by (simp add: differ_only_in_digits_def is_digit_def)
  show ?thesis
    using h signature_numeral_invariant
      [of "''retry 3 of 10''" "''retry 4 of 10''" "''Net''" "init None None None"]
    by blast
qed

text \<open>
  Claim C7. One novel outcome for a signature: a pair submitted \<open>N > 1\<close> times in a row,
  in a new session or in any session that has not seen its signature, is reported as
  novel the first time and as a duplicate each of the other \<open>N - 1\<close> times.
\<close>

theorem dedup_one_novel:
  assumes "1 < N"
  shows "fst (submit_n N m t (init app serial f)) = True # replicate (N - 1) False \<and>
         (signature m t \<notin> seen_messages st \<longrightarrow>
            fst (submit_n N m t st) = True # replicate (N - 1) False)"
proof -
  from assms obtain n where N: "N = Suc n" by (cases N) auto
  have "signature m t \<notin> seen_messages (init app serial f)" by (simp add: init_def)
  then show ?thesis
    using submit_n_fresh [of m t _ n] by (simp add: N del: submit_n.simps)
qed

theorem dedup_one_novel_witness:
  "(1::nat) < 3 \<and>
   fst (submit_n 3 ''Failed at 12'' ''Tag'' (init None None None)) = [True, False, False]"
proof -
  have h: "(1::nat) < 3" by simp
  have r: "replicate (3 - 1) False = [False, False]" by (simp add: numeral_2_eq_2)
  show ?thesis
    using h dedup_one_novel
      [OF h, of "''Failed at 12''" "''Tag''" None None None "init None None None"] r
    by simp
qed

text \<open>
  Claim C10. The digits are deleted from the joined string \<open>tag:message\<close>, so from the
  tag as well: for every message and every two tags that differ only in their digits the
  signatures are equal and the second submission is reported as a duplicate. In
  particular this holds for the tags \<open>Worker1\<close> and \<open>Worker2\<close>.
\<close>

theorem signature_deletes_tag_digits:
  "signature m t =
     strip (re_sub_runs is_space '' '' (filter (\<lambda>c. \<not> is_digit c) (t @ '':'' @ m))) \<and>
   (differ_only_in_digits t1 t2 \<longrightarrow>
      signature m t1 = signature m t2 \<and>
      fst (deduplicate_message m t2 (snd (deduplicate_message m t1 st))) = False) \<and>
   signature m ''Worker1'' = signature m ''Worker2'' \<and>
   fst (deduplicate_message m ''Worker2'' (snd (deduplicate_message m ''Worker1'' st))) = False"
proof -
  have form: "signature m t =
     strip (re_sub_runs is_space '' '' (filter (\<lambda>c. \<not> is_digit c) (t @ '':'' @ m)))"
    by (simp add: signature_def re_sub_runs_delete)
  have gen: "signature m a = signature m b" if "differ_only_in_digits a b" for a b
    using that by (simp add: signature_digits differ_only_in_digits_def)
  have conc: "differ_only_in_digits ''Worker1'' ''Worker2''"
    by (simp add: differ_only_in_digits_def is_digit_def)
  show ?thesis
    using form gen [of t1 t2] gen [OF conc]
      dedup_second [of m t2 m t1 st] dedup_second [of m "''Worker2''" m "''Worker1''" st]
    by auto
qed

theorem signature_deletes_tag_digits_witness:
  "differ_only_in_digits ''pool-7-thread-2'' ''pool-12-thread-40'' \<and>
   signature ''done'' ''pool-7-thread-2'' = signature ''done'' ''pool-12-thread-40'' \<and>
   fst (deduplicate_message ''done'' ''pool-12-thread-40''
         (snd (deduplicate_message ''done'' ''pool-7-thread-2'' (init None None None)))) = False"
proof -
  have h: "differ_only_in_digits ''pool-7-thread-2'' ''pool-12-thread-40''"
    by (simp add: differ_only_in_digits_def is_digit_def)
  show ?thesis
    using h signature_deletes_tag_digits
      [of "''done''" "''x''" "''pool-7-thread-2''" "''pool-12-thread-40''" "init None None None"]
    by blast
qed

section \<open>Properties of the parser and the classifier\<close>

lemmas parse_defs = parse_logcat_line_def match_timestamp_def match_digits_n_def match_lit_def
  match_spaces1_def match_digits1_def match_priority_def match_tag_def match_message_def
  is_digit_def is_space_def PRIORITY_MAP_def strip_def Let_def

lemma parse_fields:
  assumes "parse_logcat_line line = Some r"
  shows "priority r \<in> set [''V'', ''D'', ''I'', ''W'', ''E'', ''F'']"
    and "severity r = (case PRIORITY_MAP (priority r) of None \<Rightarrow> ''unknown'' | Some v \<Rightarrow> v)"
    and "raw r = line"
  using assms
  by (auto simp: parse_logcat_line_def match_priority_def
           split: Option.bind_splits list.splits if_splits prod.splits)

text \<open>
  Claim C8, as amended. For every parsed line the priority is one of the six letters and
  the tier that \<^verbatim>\<open>classify_log_line\<close> derives, which is the one used for counting and
  filtering, is one of the five values, with \<open>V\<close> to verbose, \<open>D\<close> to debug, \<open>I\<close> to
  info, \<open>W\<close> to warning, and both \<open>E\<close> and \<open>F\<close> to error. The \<open>severity\<close> field stored
  on the parsed record is the entry of \<^verbatim>\<open>PRIORITY_MAP\<close>: the same for \<open>V\<close>, \<open>D\<close>, \<open>I\<close>,
  \<open>W\<close> and \<open>E\<close>, but \<open>fatal\<close> for \<open>F\<close>.
\<close>

theorem severity_tiers:
  assumes "parse_logcat_line line = Some r"
  shows "priority r \<in> set [''V'', ''D'', ''I'', ''W'', ''E'', ''F''] \<and>
         classify_log_line r \<in> set [''verbose'', ''debug'', ''info'', ''warning'', ''error''] \<and>
         (priority r = ''V'' \<longrightarrow> classify_log_line r = ''verbose'' \<and> severity r = ''verbose'') \<and>
         (priority r = ''D'' \<longrightarrow> classify_log_line r = ''debug'' \<and> severity r = ''debug'') \<and>
         (priority r = ''I'' \<longrightarrow> classify_log_line r = ''info'' \<and> severity r = ''info'') \<and>
         (priority r = ''W'' \<longrightarrow> classify_log_line r = ''warning'' \<and> severity r = ''warning'') \<and>
         (priority r = ''E'' \<longrightarrow> classify_log_line r = ''error'' \<and> severity r = ''error'') \<and>
         (priority r = ''F'' \<longrightarrow> classify_log_line r = ''error'' \<and> severity r = ''fatal'')"
  using parse_fields [OF assms]
  by (auto simp: classify_log_line_def PRIORITY_MAP_def Let_def)

lemma parse_fatal:
  "parse_logcat_line ''01-01 00:00:00.000 1 1 F TagA: boom'' =
     Some \<lparr>timestamp = ''01-01 00:00:00.000'', pid = ''1'', tid = ''1'', priority = ''F'',
           severity = ''fatal'', tag = ''TagA'', message = ''boom'',
           raw = ''01-01 00:00:00.000 1 1 F TagA: boom''\<rparr>"
  by (simp add: parse_defs)

theorem severity_tiers_witness:
  "parse_logcat_line ''01-01 00:00:00.000 1 1 F TagA: boom'' =
     Some \<lparr>timestamp = ''01-01 00:00:00.000'', pid = ''1'', tid = ''1'', priority = ''F'',
           severity = ''fatal'', tag = ''TagA'', message = ''boom'',
           raw = ''01-01 00:00:00.000 1 1 F TagA: boom''\<rparr> \<and>
   classify_log_line \<lparr>timestamp = ''01-01 00:00:00.000'', pid = ''1'', tid = ''1'',
           priority = ''F'', severity = ''fatal'', tag = ''TagA'', message = ''boom'',
           raw = ''01-01 00:00:00.000 1 1 F TagA: boom''\<rparr> = ''error''"
  using parse_fatal severity_tiers [OF parse_fatal]
  by simp

text \<open>
  The claim C8 as stated fails for the stored field: a line of priority \<open>F\<close> is
  classified as error, and its \<open>severity\<close> field is \<open>fatal\<close>, which is none of the five
  tiers.
\<close>

theorem severity_field_counterexample:
  "map_option severity (parse_logcat_line ''01-01 00:00:00.000 1 1 F TagA: boom'') = Some ''fatal'' \<and>
   map_option classify_log_line (parse_logcat_line ''01-01 00:00:00.000 1 1 F TagA: boom'') = Some ''error'' \<and>
   ''fatal'' \<notin> set [''verbose'', ''debug'', ''info'', ''warning'', ''error'']"
  by (simp add: parse_fatal classify_log_line_def)

section \<open>Properties of the priority threshold\<close>

lemma set_priority_letters: "set (priority_letters sevs) = contributed sevs"
  by (induction sevs) (auto simp: priority_letters_def letters_of_def contributed_def split: if_splits)

lemma index_rank:
  "p \<in> set priority_order \<Longrightarrow> list_index priority_order p = Some (priority_rank p)"
  by (auto simp: priority_order_def priority_rank_def)

lemma nth_rank: "p \<in> set priority_order \<Longrightarrow> priority_order ! priority_rank p = p"
  by (auto simp: priority_order_def priority_rank_def)

lemma contributed_order: "contributed sevs \<subseteq> set priority_order"
  by (auto simp: contributed_def priority_order_def split: if_splits)

lemma those_map_Some: "(\<And>x. x \<in> set xs \<Longrightarrow> f x = Some (g x)) \<Longrightarrow> those (map f xs) = Some (map g xs)"
  by (induction xs) auto

lemma min_list_nat_Min:
  assumes "xs \<noteq> []"
  shows "min_list_nat xs = Min (set xs)"
proof (cases xs)
  case Nil
  with assms show ?thesis by simp
next
  case (Cons a list)
  then show ?thesis
    using Min.set_eq_fold [of a list] by (simp add: min_list_nat_def)
qed

lemma min_priority_letters:
  assumes "priority_letters sevs \<noteq> []"
  shows "\<exists>p \<in> contributed sevs. min_priority sevs = Inr (Some p) \<and>
           (\<forall>q \<in> contributed sevs. priority_rank p \<le> priority_rank q)"
proof -
  let ?ls = "priority_letters sevs"
  have sub: "set ?ls \<subseteq> set priority_order"
    using contributed_order by (simp add: set_priority_letters)
  have ne: "sevs \<noteq> []" using assms by (auto simp: priority_letters_def)
  have th: "those (map (list_index priority_order) ?ls) = Some (map priority_rank ?ls)"
    using sub by (intro those_map_Some index_rank) auto
  have mp: "min_priority sevs = Inr (Some (priority_order ! Min (set (map priority_rank ?ls))))"
    using assms ne th by (simp add: min_priority_def Let_def min_list_nat_Min)
  have "Min (set (map priority_rank ?ls)) \<in> set (map priority_rank ?ls)"
    using assms by (intro Min_in) auto
  then obtain p where p: "p \<in> set ?ls" "priority_rank p = Min (set (map priority_rank ?ls))"
    by auto
  have le: "priority_rank p \<le> priority_rank q" if "q \<in> set ?ls" for q
    using that p(2) by simp
  have "priority_order ! Min (set (map priority_rank ?ls)) = p"
    using nth_rank [of p] p sub by auto
  with mp p(1) le show ?thesis
    by (auto simp: set_priority_letters)
qed

text \<open>
  Claim C9. For every non-empty list of severities of the vocabulary, the threshold is one
  letter \<open>p\<close> among those the list contributes, it is the argument \<open>*:p\<close> of the
  command, and no contributed letter is lower in the order \<open>V < D < I < W < E < F\<close>.
  With the default filter the threshold is \<open>D\<close>.
\<close>

theorem min_priority_minimum:
  assumes "sevs \<noteq> []" and "set sevs \<subseteq> set severities"
  shows "(\<exists>p \<in> contributed sevs. min_priority sevs = Inr (Some p) \<and>
            filter_args (st\<lparr>severity_filter := sevs\<rparr>) = Inr [''*:'' @ p] \<and>
            (\<forall>q \<in> contributed sevs. priority_rank p \<le> priority_rank q)) \<and>
         min_priority (severity_filter (init app serial None)) = Inr (Some ''D'')"
proof -
  from assms obtain s where "s \<in> set sevs" "s \<in> set severities" by (cases sevs) auto
  then have "contributed sevs \<noteq> {}"
    by (auto simp: contributed_def severities_def)
  then have "priority_letters sevs \<noteq> []"
    using set_priority_letters [of sevs] by auto
  from min_priority_letters [OF this] obtain p where
    "p \<in> contributed sevs" "min_priority sevs = Inr (Some p)"
    "\<forall>q \<in> contributed sevs. priority_rank p \<le> priority_rank q" by blast
  moreover have "min_priority (severity_filter (init app serial None)) = Inr (Some ''D'')"
    by (simp add: init_def min_priority_def priority_letters_def letters_of_def
          priority_order_def min_list_nat_def)
  ultimately show ?thesis
    by (auto simp: filter_args_def)
qed

theorem min_priority_minimum_witness:
  "[''warning'', ''error''] \<noteq> [] \<and> set [''warning'', ''error''] \<subseteq> set severities \<and>
   contributed [''warning'', ''error''] = {''W'', ''E'', ''F''} \<and>
   min_priority [''warning'', ''error''] = Inr (Some ''W'')"
proof -
  have h1: "[''warning'', ''error''] \<noteq> ([] :: string list)" by simp
  have h2: "set [''warning'', ''error''] \<subseteq> set severities" by (simp add: severities_def)
  have c: "contributed [''warning'', ''error''] = {''W'', ''E'', ''F''}"
    by (auto simp: contributed_def)
  have r: "priority_rank ''W'' = 3" "priority_rank ''E'' = 4" "priority_rank ''F'' = 5"
    by (simp_all add: priority_rank_def)
  from min_priority_minimum [OF h1 h2, of "init None None None" None None]
  obtain p where p: "p \<in> contributed [''warning'', ''error'']"
    "min_priority [''warning'', ''error''] = Inr (Some p)"
    "\<forall>q \<in> contributed [''warning'', ''error'']. priority_rank p \<le> priority_rank q"
    by blast
  from p(1,3) have "p = ''W''" unfolding c using r by auto
  with p(2) h1 h2 c show ?thesis by simp
qed

section \<open>Properties of the duration parser\<close>

lemmas duration_defs = parse_time_duration_def match_duration_def match_digits1_def lower_def
  lower_char_def upper_chars_def lower_chars_def is_digit_def int_of_digits_def digit_value_def

lemma match_duration_prefix:
  assumes "match_duration t = Some (ds, us)"
  shows "has_grammar_prefix t"
proof -
  from assms obtain u rest where
    ds: "ds = takeWhile is_digit t" "ds \<noteq> []" and
    r: "dropWhile is_digit t = u # rest" and u: "u \<in> set ''smh''"
    by (auto simp: match_duration_def match_digits1_def
             split: Option.bind_splits if_splits list.splits)
  have t: "t = ds @ u # rest"
    using takeWhile_dropWhile_id [of is_digit t] ds(1) r by simp
  then have tk: "take (Suc (length ds)) t = ds @ [u]" by simp
  have dig: "list_all is_digit ds"
    unfolding ds(1) by (auto simp: list_all_iff dest: set_takeWhileD)
  have g: "duration_grammar (take (Suc (length ds)) t)"
    unfolding tk using ds(2) dig u by (simp add: duration_grammar_def)
  have "Suc (length ds) \<in> set [0..<Suc (length t)]"
    using t by (metis atLeastLessThan_iff length_append length_Cons less_Suc_eq_le
        less_add_Suc1 not_less_eq_eq set_upt zero_le le_add1 add_Suc_right)
  with g show ?thesis
    unfolding has_grammar_prefix_def list_ex_iff by blast
qed

text \<open>
  Claim C5, as amended. The string is lower-cased before it is matched. \<open>30s\<close> gives 30,
  \<open>5m\<close> gives 300, \<open>1h\<close> gives 3600, and so does a capital unit: \<open>30S\<close> gives 30.
  \<open>5x\<close> is rejected, and so is every string whose lower-cased form has no prefix in the
  grammar \<open><integer><unit>\<close>: the result is the ValueError, raised before anything is
  streamed.
\<close>

theorem parse_time_duration_amended:
  "parse_time_duration ''30s'' = Inr 30 \<and>
   parse_time_duration ''5m'' = Inr 300 \<and>
   parse_time_duration ''1h'' = Inr 3600 \<and>
   parse_time_duration ''30S'' = Inr 30 \<and>
   isl (parse_time_duration ''5x'') \<and>
   (\<not> has_grammar_prefix (lower s) \<longrightarrow>
      parse_time_duration s = Inl (ValueError (''Invalid duration format: '' @ s @ usage_hint)))"
proof -
  have a: "parse_time_duration ''30s'' = Inr 30" by (simp add: duration_defs)
  have b: "parse_time_duration ''5m'' = Inr 300" by (simp add: duration_defs)
  have c: "parse_time_duration ''1h'' = Inr 3600" by (simp add: duration_defs)
  have d: "parse_time_duration ''30S'' = Inr 30" by (simp add: duration_defs)
  have e: "isl (parse_time_duration ''5x'')" by (simp add: duration_defs)
  have f: "parse_time_duration s = Inl (ValueError (''Invalid duration format: '' @ s @ usage_hint))"
    if "\<not> has_grammar_prefix (lower s)"
  proof (cases "match_duration (lower s)")
    case None
    then show ?thesis by (simp add: parse_time_duration_def)
  next
    case (Some a)
    with that match_duration_prefix [of "lower s" "fst a" "snd a"] show ?thesis by simp
  qed
  from a b c d e f show ?thesis by blast
qed

theorem parse_time_duration_amended_witness:
  "\<not> has_grammar_prefix (lower ''5X'') \<and>
   parse_time_duration ''5X'' = Inl (ValueError (''Invalid duration format: 5X'' @ usage_hint))"
proof -
  have h: "\<not> has_grammar_prefix (lower ''5X'')"
    by (simp add: has_grammar_prefix_def duration_grammar_def lower_def lower_char_def
          upper_chars_def lower_chars_def is_digit_def upt_rec)
  show ?thesis
    using h parse_time_duration_amended [of "''5X''"] by simp
qed

text \<open>
  The claim C5 as stated fails: \<open>30S\<close> is not in the grammar, whose units are the
  small letters, and it is not rejected.
\<close>

theorem parse_time_duration_counterexample:
  "\<not> duration_grammar ''30S'' \<and> parse_time_duration ''30S'' = Inr 30"
  by (simp add: duration_grammar_def duration_defs)

text \<open>
  The pattern is not anchored at the end of the string, so text after the unit is
  ignored.
\<close>

lemma parse_time_duration_trailing: "parse_time_duration ''5sx'' = Inr 5"
  by (simp add: duration_defs)

section \<open>Properties of the line processing\<close>

lemma digit_not_space: "is_digit c \<Longrightarrow> \<not> is_space c"
  by (auto simp: is_digit_def is_space_def)

lemma strip_Nil_iff: "strip s = [] \<longleftrightarrow> (\<forall>c \<in> set s. is_space c)"
proof
  assume "strip s = []"
  then have "\<forall>c \<in> set (dropWhile is_space s). is_space c"
    by (simp add: strip_def dropWhile_eq_Nil_conv)
  then have "dropWhile is_space s = []"
    using hd_dropWhile [of is_space s] hd_in_set [of "dropWhile is_space s"] by blast
  then show "\<forall>c \<in> set s. is_space c" by (simp add: dropWhile_eq_Nil_conv)
next
  assume "\<forall>c \<in> set s. is_space c"
  then show "strip s = []" by (auto simp: strip_def dest: set_dropWhileD)
qed

lemma parse_nonblank:
  assumes "parse_logcat_line line = Some r"
  shows "strip line \<noteq> []"
proof -
  from assms obtain rest where "match_digits_n 2 line = Some rest"
    by (auto simp: parse_logcat_line_def match_timestamp_def
             split: Option.bind_splits option.splits prod.splits)
  then have "2 \<le> length line" "list_all is_digit (take 2 line)"
    by (auto simp: match_digits_n_def split: if_splits)
  then obtain c cs where "line = c # cs" "is_digit c"
    by (cases line) auto
  then show ?thesis
    using digit_not_space by (auto simp: strip_Nil_iff)
qed

lemma blank_unparsed: "strip line = [] \<Longrightarrow> parse_logcat_line line = None"
  using parse_nonblank by (cases "parse_logcat_line line") auto

lemma process_blank: "strip line = [] \<Longrightarrow> process_log_line line st = st"
  by (simp add: process_log_line_def)

lemma process_unparsed:
  "strip line \<noteq> [] \<Longrightarrow> parse_logcat_line line = None \<Longrightarrow>
   process_log_line line st =
     st\<lparr>log_lines := log_lines st @ [line], total_lines := total_lines st + 1\<rparr>"
  by (simp add: process_log_line_def)

lemma process_parsed_log_lines:
  assumes "parse_logcat_line line = Some r"
  shows "log_lines (process_log_line line st) = log_lines st @ [line] \<and>
         total_lines (process_log_line line st) = total_lines st + 1"
  using assms parse_nonblank [OF assms] parse_fields(3) [OF assms]
  by (simp add: process_log_line_def Let_def deduplicate_message_def case_prod_beta)

lemma process_log_lines:
  "log_lines (process_log_line line st) =
     (if strip line = [] then log_lines st else log_lines st @ [line])"
  "total_lines (process_log_line line st) =
     (if strip line = [] then total_lines st else total_lines st + 1)"
  using process_parsed_log_lines [of line _ st] process_unparsed [of line st] process_blank [of line st]
  by (cases "parse_logcat_line line"; cases "strip line = []"; simp)+

lemma process_lines_log_lines:
  "log_lines (process_lines ls st) = log_lines st @ filter (\<lambda>l. strip l \<noteq> []) ls"
  unfolding process_lines_def
  by (induction ls arbitrary: st) (simp_all add: process_log_lines)


lemma parse_boom1:
  "parse_logcat_line ''01-01 00:00:00.000 1 1 E TagA: boom 1'' =
     Some \<lparr>timestamp = ''01-01 00:00:00.000'', pid = ''1'', tid = ''1'', priority = ''E'',
           severity = ''error'', tag = ''TagA'', message = ''boom 1'',
           raw = ''01-01 00:00:00.000 1 1 E TagA: boom 1''\<rparr>"
  by (simp add: parse_defs)

lemma parse_boom2:
  "parse_logcat_line ''01-01 00:00:00.100 1 1 E TagA: boom 2'' =
     Some \<lparr>timestamp = ''01-01 00:00:00.100'', pid = ''1'', tid = ''1'', priority = ''E'',
           severity = ''error'', tag = ''TagA'', message = ''boom 2'',
           raw = ''01-01 00:00:00.100 1 1 E TagA: boom 2''\<rparr>"
  by (simp add: parse_defs)

lemma parse_ok:
  "parse_logcat_line ''01-01 00:00:00.200 1 1 I TagB: ok'' =
     Some \<lparr>timestamp = ''01-01 00:00:00.200'', pid = ''1'', tid = ''1'', priority = ''I'',
           severity = ''info'', tag = ''TagB'', message = ''ok'',
           raw = ''01-01 00:00:00.200 1 1 I TagB: ok''\<rparr>"
  by (simp add: parse_defs)

lemma sig_boom: "signature ''boom 1'' ''TagA'' = ''TagA:boom''" "signature ''boom 2'' ''TagA'' = ''TagA:boom''"
  by (simp_all add: signature_def strip_def is_digit_def is_space_def)

lemma scenario_state:
  "process_lines [''01-01 00:00:00.000 1 1 E TagA: boom 1'',
                  ''01-01 00:00:00.100 1 1 E TagA: boom 2'',
                  ''01-01 00:00:00.200 1 1 I TagB: ok''] (init None None None) =
     (init None None None)
       \<lparr>log_lines := [''01-01 00:00:00.000 1 1 E TagA: boom 1'',
                      ''01-01 00:00:00.100 1 1 E TagA: boom 2'',
                      ''01-01 00:00:00.200 1 1 I TagB: ok''],
        errors := [''[TagA] boom 1''],
        info_messages := [''[TagB] ok''],
        error_count := 1,
        info_count := 1,
        total_lines := 3,
        seen_messages := {''TagA:boom''}\<rparr>"
  by (simp add: process_lines_def process_log_line_def parse_boom1 parse_boom2 parse_ok
        classify_log_line_def deduplicate_message_def sig_boom entry_def init_def Let_def
        strip_def is_space_def)

text \<open>
  Claim C1, as amended. A parsed error or warning that passes the severity filter and
  whose signature has been seen in the session is kept out of the issue lists and is
  not counted either: the line is stored and \<^verbatim>\<open>total_lines\<close> grows by one, and nothing
  else in the state changes. The three lines of the scenario, processed in order with
  the default filter, leave \<^verbatim>\<open>error_count = 1\<close>, \<^verbatim>\<open>info_count = 1\<close>, one entry in the
  errors list and one entry in the info list.
\<close>

theorem duplicate_not_counted:
  assumes "parse_logcat_line line = Some r"
    and "classify_log_line r \<in> set [''error'', ''warning'']"
    and "classify_log_line r \<in> set (severity_filter st)"
    and "signature (message r) (tag r) \<in> seen_messages st"
  shows "process_log_line line st =
           st\<lparr>total_lines := total_lines st + 1, log_lines := log_lines st @ [line]\<rparr> \<and>
         (let final = process_lines [''01-01 00:00:00.000 1 1 E TagA: boom 1'',
                                     ''01-01 00:00:00.100 1 1 E TagA: boom 2'',
                                     ''01-01 00:00:00.200 1 1 I TagB: ok''] (init None None None)
          in error_count final = 1 \<and> info_count final = 1 \<and>
             errors final = [''[TagA] boom 1''] \<and> info_messages final = [''[TagB] ok''])"
proof -
  have "process_log_line line st =
           st\<lparr>total_lines := total_lines st + 1, log_lines := log_lines st @ [line]\<rparr>"
    using assms parse_nonblank [OF assms(1)] parse_fields(3) [OF assms(1)]
    by (simp add: process_log_line_def Let_def deduplicate_message_def)
  then show ?thesis by (simp add: scenario_state Let_def)
qed

theorem duplicate_not_counted_witness:
  "process_log_line ''01-01 00:00:00.100 1 1 E TagA: boom 2''
     (process_log_line ''01-01 00:00:00.000 1 1 E TagA: boom 1'' (init None None None)) =
   (process_log_line ''01-01 00:00:00.000 1 1 E TagA: boom 1'' (init None None None))
     \<lparr>total_lines := 2,
      log_lines := [''01-01 00:00:00.000 1 1 E TagA: boom 1'',
                    ''01-01 00:00:00.100 1 1 E TagA: boom 2'']\<rparr> \<and>
   error_count (process_log_line ''01-01 00:00:00.100 1 1 E TagA: boom 2''
     (process_log_line ''01-01 00:00:00.000 1 1 E TagA: boom 1'' (init None None None))) = 1"
proof -
  let ?st = "process_log_line ''01-01 00:00:00.000 1 1 E TagA: boom 1'' (init None None None)"
  let ?r = "\<lparr>timestamp = ''01-01 00:00:00.100'', pid = ''1'', tid = ''1'', priority = ''E'',
           severity = ''error'', tag = ''TagA'', message = ''boom 2'',
           raw = ''01-01 00:00:00.100 1 1 E TagA: boom 2''\<rparr>"
  have st: "?st = (init None None None)
       \<lparr>log_lines := [''01-01 00:00:00.000 1 1 E TagA: boom 1''],
        errors := [''[TagA] boom 1''],
        error_count := 1,
        total_lines := 1,
        seen_messages := {''TagA:boom''}\<rparr>"
    by (simp add: process_log_line_def parse_boom1
        classify_log_line_def deduplicate_message_def sig_boom entry_def init_def Let_def
        strip_def is_space_def)
  have h2: "classify_log_line ?r \<in> set [''error'', ''warning'']"
    by (simp add: classify_log_line_def)
  have h3: "classify_log_line ?r \<in> set (severity_filter ?st)"
    unfolding st by (simp add: classify_log_line_def init_def)
  have h4: "signature (message ?r) (tag ?r) \<in> seen_messages ?st"
    unfolding st by (simp add: sig_boom)
  from duplicate_not_counted [OF parse_boom2 h2 h3 h4]
  have "process_log_line ''01-01 00:00:00.100 1 1 E TagA: boom 2'' ?st =
          ?st\<lparr>total_lines := total_lines ?st + 1,
              log_lines := log_lines ?st @ [''01-01 00:00:00.100 1 1 E TagA: boom 2'']\<rparr>"
    by blast
  then show ?thesis
    unfolding st by (simp add: init_def)
qed

text \<open>
  The claim C1 as stated fails on its own scenario: the second \<open>boom\<close> line returns
  before the counter is incremented, so the error count is 1 and not 2.
\<close>

theorem duplicate_counted_counterexample:
  "error_count (process_lines [''01-01 00:00:00.000 1 1 E TagA: boom 1'',
                               ''01-01 00:00:00.100 1 1 E TagA: boom 2'',
                               ''01-01 00:00:00.200 1 1 I TagB: ok''] (init None None None)) = 1 \<and>
   error_count (process_lines [''01-01 00:00:00.000 1 1 E TagA: boom 1'',
                               ''01-01 00:00:00.100 1 1 E TagA: boom 2'',
                               ''01-01 00:00:00.200 1 1 I TagB: ok''] (init None None None)) \<noteq> 2"
  by (simp add: scenario_state)

lemma sample_logs_last:
  "sample_logs (get_json_output st) = rev (take 50 (rev (log_lines st)))"
  by (simp add: get_json_output_def take_rev)

text \<open>
  Claim C2, as amended. The stored raw lines are not bounded: every line that is not
  blank is appended, in order, and none is evicted; the log file that \<^verbatim>\<open>save_logs\<close>
  writes holds all of them. The bound of 50 is that of the report: the sample of the
  structured payload is the last 50 stored lines, in order, so it never has more than
  50 entries.
\<close>

theorem raw_lines_unbounded:
  "log_lines (process_lines ls st) = log_lines st @ filter (\<lambda>l. strip l \<noteq> []) ls \<and>
   fst (save_logs (process_lines ls st)) =
     join_lines (log_lines st @ filter (\<lambda>l. strip l \<noteq> []) ls) \<and>
   length (sample_logs (get_json_output st)) = min 50 (length (log_lines st)) \<and>
   sample_logs (get_json_output st) = rev (take 50 (rev (log_lines st)))"
proof -
  have stored: "log_lines (process_lines ls st) =
                  log_lines st @ filter (\<lambda>l. strip l \<noteq> []) ls"
    by (rule process_lines_log_lines)
  have written: "fst (save_logs (process_lines ls st)) =
                   join_lines (log_lines (process_lines ls st))"
    by (simp add: save_logs_def)
  have bounded: "length (sample_logs (get_json_output st)) = min 50 (length (log_lines st))"
    by (simp add: get_json_output_def)
  from stored written bounded sample_logs_last [of st] show ?thesis
    by simp
qed

text \<open>
  The claim C2 as stated fails: after 51 lines the store holds 51 lines and the log
  file holds all 51; after one more line the oldest line is still the first.
\<close>

theorem raw_lines_bound_counterexample:
  "length (log_lines (process_lines (replicate 51 ''x'') (init None None None))) = 51 \<and>
   \<not> length (log_lines (process_lines (replicate 51 ''x'') (init None None None))) \<le> 50 \<and>
   fst (save_logs (process_lines (replicate 51 ''x'') (init None None None))) =
     join_lines (replicate 51 ''x'') \<and>
   hd (log_lines (process_lines (replicate 51 ''x'' @ [''y'']) (init None None None))) = ''x''"
proof -
  have x: "strip ''x'' \<noteq> []" "strip ''y'' \<noteq> []" by (simp_all add: strip_def is_space_def)
  have l: "log_lines (process_lines (replicate 51 ''x'') (init None None None)) = replicate 51 ''x''"
    using x by (simp add: process_lines_log_lines init_def)
  have l2: "log_lines (process_lines (replicate 51 ''x'' @ [''y'']) (init None None None)) =
              replicate 51 ''x'' @ [''y'']"
    using x by (simp add: process_lines_log_lines init_def)
  have h: "hd (replicate 51 ''x'' @ [''y'']) = ''x''"
    by (simp add: hd_append)
  show ?thesis
    unfolding l l2 h by (simp add: save_logs_def l)
qed

text \<open>
  Claim C3, as amended. A line that is empty after \<^verbatim>\<open>strip()\<close> leaves the state as it
  is. Every other line has one outcome: it is appended to the stored lines and
  \<^verbatim>\<open>total_lines\<close> grows by one, whether it parses or not; and when it does not parse,
  nothing else changes: no counter of a severity and no list of errors, warnings or info.
\<close>

theorem every_nonblank_line_stored:
  "(strip line = [] \<longrightarrow> process_log_line line st = st) \<and>
   (strip line \<noteq> [] \<longrightarrow>
      log_lines (process_log_line line st) = log_lines st @ [line] \<and>
      total_lines (process_log_line line st) = total_lines st + 1) \<and>
   (strip line \<noteq> [] \<and> parse_logcat_line line = None \<longrightarrow>
      process_log_line line st =
        st\<lparr>log_lines := log_lines st @ [line], total_lines := total_lines st + 1\<rparr>)"
  using process_blank [of line st] process_unparsed [of line st] process_log_lines [of line st]
  by simp

theorem every_nonblank_line_stored_witness:
  "strip ''--------- beginning of main'' \<noteq> [] \<and>
   parse_logcat_line ''--------- beginning of main'' = None \<and>
   process_log_line ''--------- beginning of main'' (init None None None) =
     (init None None None)\<lparr>log_lines := [''--------- beginning of main''], total_lines := 1\<rparr> \<and>
   strip [] = [] \<and>
   process_log_line [] (init None None None) = init None None None"
proof -
  have h1: "strip ''--------- beginning of main'' \<noteq> []"
    by (simp add: strip_def is_space_def)
  have h2: "parse_logcat_line ''--------- beginning of main'' = None"
    by (simp add: parse_defs)
  have h3: "strip [] = []" by (simp add: strip_def)
  show ?thesis
    using h1 h2 h3
      every_nonblank_line_stored [of "''--------- beginning of main''" "init None None None"]
      every_nonblank_line_stored [of "[]" "init None None None"]
    by (simp add: init_def)
qed

text \<open>
  The claim C3 as stated fails for the empty line: it does not parse, and it is neither
  stored nor counted.
\<close>

theorem blank_line_dropped_counterexample:
  "parse_logcat_line [] = None \<and>
   log_lines (process_log_line [] (init None None None)) = [] \<and>
   total_lines (process_log_line [] (init None None None)) = 0"
  by (simp add: parse_defs process_log_line_def init_def)

text \<open>
  Claim C4, as amended. The parser is a total function with two outcomes and no error:
  no match, or a record whose \<open>raw\<close> field is the line itself. A line that does not
  match and is not blank is stored exactly as it came. A blank line never matches and
  is not stored.
\<close>

theorem parser_total_raw_kept:
  "(parse_logcat_line line = None \<or>
      (\<exists>r. parse_logcat_line line = Some r \<and> raw r = line)) \<and>
   (parse_logcat_line line = None \<and> strip line \<noteq> [] \<longrightarrow>
      log_lines (process_log_line line st) = log_lines st @ [line]) \<and>
   (strip line = [] \<longrightarrow>
      parse_logcat_line line = None \<and>
      log_lines (process_log_line line st) = log_lines st)"
proof -
  have a: "parse_logcat_line line = None \<or>
      (\<exists>r. parse_logcat_line line = Some r \<and> raw r = line)"
    using parse_fields(3) [of line] by (cases "parse_logcat_line line") auto
  show ?thesis
    using a blank_unparsed [of line] process_log_lines(1) [of line st] by simp
qed

theorem parser_total_raw_kept_witness:
  "parse_logcat_line ''E/AndroidRuntime: FATAL EXCEPTION: main'' = None \<and>
   strip ''E/AndroidRuntime: FATAL EXCEPTION: main'' \<noteq> [] \<and>
   log_lines (process_log_line ''E/AndroidRuntime: FATAL EXCEPTION: main'' (init None None None)) =
     [''E/AndroidRuntime: FATAL EXCEPTION: main'']"
proof -
  have h1: "parse_logcat_line ''E/AndroidRuntime: FATAL EXCEPTION: main'' = None"
    by (simp add: parse_defs)
  have h2: "strip ''E/AndroidRuntime: FATAL EXCEPTION: main'' \<noteq> []"
    by (simp add: strip_def is_space_def)
  show ?thesis
    using h1 h2
      parser_total_raw_kept [of "''E/AndroidRuntime: FATAL EXCEPTION: main''" "init None None None"]
    by (simp add: init_def)
qed

text \<open>
  The claim C4 as stated fails for a line of spaces: it does not match, and it is not
  retained.
\<close>

theorem blank_line_not_retained_counterexample:
  "parse_logcat_line ''   '' = None \<and>
   ''   '' \<notin> set (log_lines (process_log_line ''   '' (init None None None)))"
  by (simp add: parse_defs process_log_line_def init_def)

end
